theory Spec2Isabelle
  imports Main
begin

section \<open>slogtripper: an http.RoundTripper that logs each round trip through slog\<close>

text \<open>
  A shallow embedding of \<^verbatim>\<open>slogtripper.go\<close>. Go pointers are addresses into the stores of
  a \<open>World\<close>; a nil pointer, a nil map and a nil interface value are \<open>None\<close>. A Go
  function that may panic returns an \<open>Outcome\<close>, of which \<open>Panic\<close> is one branch. An
  interface value (\<^verbatim>\<open>http.RoundTripper\<close>) is the method it carries.
\<close>

subsection \<open>Values of the standard library\<close>

type_synonym addr = nat

text \<open>\<^verbatim>\<open>slog.Level\<close> is an integer: \<^verbatim>\<open>LevelDebug = -4\<close>, \<^verbatim>\<open>LevelInfo = 0\<close>,
  \<^verbatim>\<open>LevelWarn = 4\<close>, \<^verbatim>\<open>LevelError = 8\<close>.\<close>

type_synonym Level = int

definition LevelDebug :: Level where
  "LevelDebug = - 4"

definition LevelInfo :: Level where
  "LevelInfo = 0"

definition LevelWarn :: Level where
  "LevelWarn = 4"

definition LevelError :: Level where
  "LevelError = 8"

text \<open>A non-nil \<^verbatim>\<open>error\<close> value, as \<^verbatim>\<open>errors.New\<close> builds it.\<close>

datatype error = Error string

text \<open>What a Go function panics with.\<close>

datatype panic =
    NilRequest
  | NilLogger
  | NilRoundTripper
  | OtherPanic string

datatype Context = Background | Ctx nat

text \<open>
  \<^verbatim>\<open>http.Header\<close> is \<^verbatim>\<open>map[string][]string\<close>. The association list gives the entries
  of the map (its keys are distinct) in the order in which \<^verbatim>\<open>range\<close> visits them.
\<close>

type_synonym Header = "(string \<times> string list) list"

text \<open>
  An \<^verbatim>\<open>io.ReadCloser\<close>: the bytes it still holds (finitely many), the error its
  \<^verbatim>\<open>Read\<close> returns once they are delivered (\<open>None\<close> is \<^verbatim>\<open>io.EOF\<close>), and whether
  \<^verbatim>\<open>Close\<close> was called. \<^verbatim>\<open>Close\<close> is recorded and does not change what \<^verbatim>\<open>Read\<close>
  returns, as with \<^verbatim>\<open>io.NopCloser\<close> and the \<^verbatim>\<open>ErrorReadCloser\<close> of the tests.
\<close>

record Reader =
  data :: string
  failure :: "error option"
  closed :: bool

record Request =
  Method :: string
  URL :: "string option"
  Proto :: string
  Header :: "Header option"
  Body :: "addr option"
  ContentLength :: int
  ctx :: "Context option"

record Response =
  StatusCode :: int
  Header :: "Header option"
  Body :: "addr option"
  ContentLength :: int

text \<open>The values \<^verbatim>\<open>slog.Any\<close> receives in this program.\<close>

datatype any = AnyString string | AnyError error

text \<open>\<^verbatim>\<open>slog.Attr\<close>, one constructor for each \<^verbatim>\<open>slog\<close> function the program calls.\<close>

datatype Attr =
    slog_Time string int
  | slog_String string string
  | slog_Int64 string int
  | slog_Int string int
  | slog_Duration string int
  | slog_Any string any
  | slog_Group string "Attr list"

text \<open>A record as it reaches the handler of a logger.\<close>

record LogRecord =
  rec_sink :: nat
  rec_ctx :: Context
  rec_level :: Level
  rec_msg :: string
  rec_args :: "Attr list"

text \<open>
  A \<^verbatim>\<open>*slog.Logger\<close>: the \<^verbatim>\<open>Enabled\<close> filter of its handler and the sink the handler
  writes to.
\<close>

record Logger =
  handler_enabled :: "Context \<Rightarrow> Level \<Rightarrow> bool"
  handler_sink :: nat

text \<open>
  The heap and the environment of a call: the request, response and reader objects by
  address, the next address \<^verbatim>\<open>io.NopCloser\<close> allocates, the clock \<^verbatim>\<open>time.Now\<close> reads
  (in nanoseconds), and the records written so far.
\<close>

record World =
  requests :: "addr \<Rightarrow> Request"
  responses :: "addr \<Rightarrow> Response"
  readers :: "addr \<Rightarrow> Reader"
  next_addr :: addr
  now :: int
  logs :: "LogRecord list"

text \<open>
  A call of \<^verbatim>\<open>RoundTrip\<close> panics, or returns a response pointer and an error and leaves
  the world changed.
\<close>

datatype Outcome =
    Panic panic
  | Returned "addr option" "error option" World

type_synonym RoundTripper = "addr option \<Rightarrow> World \<Rightarrow> Outcome"

subsection \<open>Functions of the standard library\<close>

text \<open>\<^verbatim>\<open>net/textproto\<close>: the bytes of an RFC 7230 token.\<close>

definition validHeaderFieldByte :: "char \<Rightarrow> bool" where
  "validHeaderFieldByte c =
     (let n = (of_char c :: nat) in
        (48 \<le> n \<and> n \<le> 57) \<or> (65 \<le> n \<and> n \<le> 90) \<or> (97 \<le> n \<and> n \<le> 122) \<or>
        n \<in> set [33, 35, 36, 37, 38, 39, 42, 43, 45, 46, 94, 95, 96, 124, 126])"

text \<open>
  The loop of \<^verbatim>\<open>canonicalMIMEHeaderKey\<close>: upper case for the first letter and for each
  letter after a dash, lower case elsewhere.
\<close>

fun canonical_loop :: "bool \<Rightarrow> string \<Rightarrow> string" where
  "canonical_loop upper [] = []"
| "canonical_loop upper (c # cs) =
     (let n = (of_char c :: nat);
          c' = (if upper \<and> 97 \<le> n \<and> n \<le> 122 then char_of (n - 32)
                else if \<not> upper \<and> 65 \<le> n \<and> n \<le> 90 then char_of (n + 32)
                else c)
      in c' # canonical_loop (c' = CHR ''-'') cs)"

text \<open>
  \<^verbatim>\<open>textproto.CanonicalMIMEHeaderKey\<close>: a key with a byte outside the token bytes is
  returned unchanged.
\<close>

definition CanonicalMIMEHeaderKey :: "string \<Rightarrow> string" where
  "CanonicalMIMEHeaderKey s =
     (if list_all validHeaderFieldByte s then canonical_loop True s else s)"

text \<open>
  \<^verbatim>\<open>Header.Get\<close>: the first value stored under the canonical form of the key, the
  empty string when the map is nil or has none.
\<close>

definition Header_Get :: "Header option \<Rightarrow> string \<Rightarrow> string" where
  "Header_Get h key =
     (case h of
        None \<Rightarrow> []
      | Some m \<Rightarrow>
          (case map_of m (CanonicalMIMEHeaderKey key) of
             None \<Rightarrow> []
           | Some [] \<Rightarrow> []
           | Some (v # vs) \<Rightarrow> v))"

text \<open>\<^verbatim>\<open>http.StatusText\<close>.\<close>

definition StatusText_table :: "(int \<times> string) list" where
  "StatusText_table =
     [(100, ''Continue''), (101, ''Switching Protocols''), (102, ''Processing''),
      (103, ''Early Hints''),
      (200, ''OK''), (201, ''Created''), (202, ''Accepted''),
      (203, ''Non-Authoritative Information''), (204, ''No Content''),
      (205, ''Reset Content''), (206, ''Partial Content''), (207, ''Multi-Status''),
      (208, ''Already Reported''), (226, ''IM Used''),
      (300, ''Multiple Choices''), (301, ''Moved Permanently''), (302, ''Found''),
      (303, ''See Other''), (304, ''Not Modified''), (305, ''Use Proxy''),
      (307, ''Temporary Redirect''), (308, ''Permanent Redirect''),
      (400, ''Bad Request''), (401, ''Unauthorized''), (402, ''Payment Required''),
      (403, ''Forbidden''), (404, ''Not Found''), (405, ''Method Not Allowed''),
      (406, ''Not Acceptable''), (407, ''Proxy Authentication Required''),
      (408, ''Request Timeout''), (409, ''Conflict''), (410, ''Gone''),
      (411, ''Length Required''), (412, ''Precondition Failed''),
      (413, ''Request Entity Too Large''), (414, ''Request URI Too Long''),
      (415, ''Unsupported Media Type''), (416, ''Requested Range Not Satisfiable''),
      (417, ''Expectation Failed''), (418, ''I'' @ [char_of (39::nat)] @ ''m a teapot''),
      (421, ''Misdirected Request''), (422, ''Unprocessable Entity''),
      (423, ''Locked''), (424, ''Failed Dependency''), (425, ''Too Early''),
      (426, ''Upgrade Required''), (428, ''Precondition Required''),
      (429, ''Too Many Requests''), (431, ''Request Header Fields Too Large''),
      (451, ''Unavailable For Legal Reasons''),
      (500, ''Internal Server Error''), (501, ''Not Implemented''),
      (502, ''Bad Gateway''), (503, ''Service Unavailable''),
      (504, ''Gateway Timeout''), (505, ''HTTP Version Not Supported''),
      (506, ''Variant Also Negotiates''), (507, ''Insufficient Storage''),
      (508, ''Loop Detected''), (510, ''Not Extended''),
      (511, ''Network Authentication Required'')]"

definition StatusText :: "int \<Rightarrow> string" where
  "StatusText code = (case map_of StatusText_table code of None \<Rightarrow> [] | Some s \<Rightarrow> s)"

text \<open>
  \<^verbatim>\<open>b.ReadFrom(body)\<close> on a fresh buffer: the reader is drained; the bytes it held are
  in the buffer, and the error is the reader's unless that is \<^verbatim>\<open>io.EOF\<close>.
\<close>

definition ReadFrom :: "World \<Rightarrow> addr \<Rightarrow> string \<times> error option \<times> World" where
  "ReadFrom w a =
     (data (readers w a), failure (readers w a),
      w\<lparr>readers := (readers w)(a := (readers w a)\<lparr>data := []\<rparr>)\<rparr>)"

definition Close :: "World \<Rightarrow> addr \<Rightarrow> World" where
  "Close w a = w\<lparr>readers := (readers w)(a := (readers w a)\<lparr>closed := True\<rparr>)\<rparr>"

text \<open>\<^verbatim>\<open>io.NopCloser(b)\<close>: a new reader over the bytes of the buffer.\<close>

definition NopCloser :: "World \<Rightarrow> string \<Rightarrow> addr \<times> World" where
  "NopCloser w b =
     (next_addr w,
      w\<lparr>readers := (readers w)(next_addr w := \<lparr>data = b, failure = None, closed = False\<rparr>),
        next_addr := Suc (next_addr w)\<rparr>)"

text \<open>\<^verbatim>\<open>Value.isEmptyGroup\<close>: a group without attributes.\<close>

fun isEmptyGroup :: "Attr \<Rightarrow> bool" where
  "isEmptyGroup (slog_Group key attrs) = (attrs = [])"
| "isEmptyGroup a = False"

text \<open>
  \<^verbatim>\<open>logger.DebugContext\<close>, \<^verbatim>\<open>logger.InfoContext\<close>: the record is handed to the handler
  when the handler is enabled at the level. \<^verbatim>\<open>Record.Add\<close> leaves out the arguments
  that are empty groups.
\<close>

definition Logger_log :: "Logger \<Rightarrow> Context \<Rightarrow> Level \<Rightarrow> string \<Rightarrow> Attr list \<Rightarrow> World \<Rightarrow> World" where
  "Logger_log l c lvl msg args w =
     (if handler_enabled l c lvl
      then w\<lparr>logs := logs w @
             [\<lparr>rec_sink = handler_sink l, rec_ctx = c, rec_level = lvl,
               rec_msg = msg, rec_args = filter (\<lambda>a. \<not> isEmptyGroup a) args\<rparr>]\<rparr>
      else w)"

text \<open>\<^verbatim>\<open>req.Context()\<close> on a request that is not nil.\<close>

definition Request_Context :: "Request \<Rightarrow> Context" where
  "Request_Context r = (case ctx r of None \<Rightarrow> Background | Some c \<Rightarrow> c)"

subsection \<open>The decorator and its options\<close>

record SlogTripper =
  logger :: "Logger option"
  logAtLevel :: Level
  proxyTransport :: "RoundTripper option"
  captureRequestBody :: bool
  captureResponseBody :: bool
  captureRequestHeaders :: bool
  captureResponseHeaders :: bool

text \<open>
  The variables of the process the package reads and writes: \<^verbatim>\<open>http.DefaultTransport\<close>,
  the logger \<^verbatim>\<open>slog.Default()\<close> returns (never nil), and whether the \<^verbatim>\<open>sync.Once\<close>
  named \<^verbatim>\<open>m\<close> has run its function.
\<close>

record Globals =
  DefaultTransport :: "RoundTripper option"
  slog_Default :: Logger
  m_done :: bool

text \<open>
  \<^verbatim>\<open>type Option func(*SlogTripper)\<close>. An option reads the variables of the process when
  \<^verbatim>\<open>NewSlogTripper\<close> runs it.
\<close>

type_synonym Option = "Globals \<Rightarrow> SlogTripper \<Rightarrow> SlogTripper"

definition WithLogger :: "Logger option \<Rightarrow> Option" where
  "WithLogger l g st =
     (let l' = (case l of None \<Rightarrow> Some (slog_Default g) | Some x \<Rightarrow> l)
      in st\<lparr>logger := l'\<rparr>)"

definition WithLoggingLevel :: "Level \<Rightarrow> Option" where
  "WithLoggingLevel level g st = st\<lparr>logAtLevel := level\<rparr>"

definition WithRoundTripper :: "RoundTripper option \<Rightarrow> Option" where
  "WithRoundTripper t g st =
     (let t' = (case t of None \<Rightarrow> DefaultTransport g | Some x \<Rightarrow> t)
      in st\<lparr>proxyTransport := t'\<rparr>)"

definition CaptureRequestBody :: Option where
  "CaptureRequestBody g st = st\<lparr>captureRequestBody := True\<rparr>"

definition CaptureResponseBody :: Option where
  "CaptureResponseBody g st = st\<lparr>captureResponseBody := True\<rparr>"

definition CaptureRequestHeaders :: Option where
  "CaptureRequestHeaders g st = st\<lparr>captureRequestHeaders := True\<rparr>"

definition CaptureResponseHeaders :: Option where
  "CaptureResponseHeaders g st = st\<lparr>captureResponseHeaders := True\<rparr>"

definition NewSlogTripper :: "Globals \<Rightarrow> Option list \<Rightarrow> SlogTripper" where
  "NewSlogTripper g opts =
     fold (\<lambda>f st. f g st) opts
       \<lparr>logger = Some (slog_Default g),
        logAtLevel = LevelInfo,
        proxyTransport = DefaultTransport g,
        captureRequestBody = False,
        captureResponseBody = False,
        captureRequestHeaders = False,
        captureResponseHeaders = False\<rparr>"

subsection \<open>The log step\<close>

text \<open>
  \<^verbatim>\<open>func (st *SlogTripper) log\<close>: a switch with two cases and no default. A method of
  a nil \<^verbatim>\<open>*slog.Logger\<close> dereferences it.
\<close>

definition log :: "SlogTripper \<Rightarrow> Context \<Rightarrow> string \<Rightarrow> Attr list \<Rightarrow> World \<Rightarrow> panic + World" where
  "log st c msg args w =
     (if logAtLevel st = LevelDebug then
        (case logger st of
           None \<Rightarrow> Inl NilLogger
         | Some l \<Rightarrow> Inr (Logger_log l c LevelDebug msg args w))
      else if logAtLevel st = LevelInfo then
        (case logger st of
           None \<Rightarrow> Inl NilLogger
         | Some l \<Rightarrow> Inr (Logger_log l c LevelInfo msg args w))
      else Inr w)"

subsection \<open>RoundTrip\<close>

definition set_Request_Body :: "World \<Rightarrow> addr \<Rightarrow> addr \<Rightarrow> World" where
  "set_Request_Body w p a =
     w\<lparr>requests := (requests w)(p := (requests w p)\<lparr>Request.Body := Some a\<rparr>)\<rparr>"

definition set_Response_Body :: "World \<Rightarrow> addr \<Rightarrow> addr \<Rightarrow> World" where
  "set_Response_Body w q a =
     w\<lparr>responses := (responses w)(q := (responses w q)\<lparr>Response.Body := Some a\<rparr>)\<rparr>"

text \<open>
  Lines 123 to 135, for the request at \<open>p\<close>: \<open>Inl\<close> is the early
  \<^verbatim>\<open>return nil, err\<close>.
\<close>

definition capture_request_body ::
  "SlogTripper \<Rightarrow> addr \<Rightarrow> Attr list \<Rightarrow> World \<Rightarrow> (error \<times> World) + (Attr list \<times> World)" where
  "capture_request_body st p requestGroup w =
     (case (captureRequestBody st, Request.Body (requests w p)) of
        (True, Some body) \<Rightarrow>
          (case ReadFrom w body of
             (b, Some err, w1) \<Rightarrow> Inl (err, w1)
           | (b, None, w1) \<Rightarrow>
               (let w2 = Close w1 body;
                    requestGroup = requestGroup @ [slog_Any ''body_content'' (AnyString b)];
                    (fresh, w3) = NopCloser w2 b
                in Inr (requestGroup, set_Request_Body w3 p fresh)))
      | _ \<Rightarrow> Inr (requestGroup, w))"

text \<open>Lines 137 to 148.\<close>

definition capture_request_headers :: "SlogTripper \<Rightarrow> addr \<Rightarrow> Attr list \<Rightarrow> World \<Rightarrow> Attr list" where
  "capture_request_headers st p requestGroup w =
     (case (captureRequestHeaders st, Request.Header (requests w p)) of
        (True, Some h) \<Rightarrow>
          (let headers =
                 map (\<lambda>name. slog_String name (Header_Get (Request.Header (requests w p)) name))
                   (map fst h)
           in if headers \<noteq> [] then requestGroup @ [slog_Group ''headers'' headers]
              else requestGroup)
      | _ \<Rightarrow> requestGroup)"

text \<open>Lines 108 to 149: what happens before the delegate is called.\<close>

definition RoundTrip_request ::
  "SlogTripper \<Rightarrow> int \<Rightarrow> addr option \<Rightarrow> World \<Rightarrow> (error \<times> World) + (Attr list \<times> World)" where
  "RoundTrip_request st start req w =
     (let requestGroup = [slog_Time ''started_at'' start] in
      case req of
        None \<Rightarrow> Inr (requestGroup, w)
      | Some p \<Rightarrow>
          (let r = requests w p;
               requestGroup = requestGroup @
                 [slog_String ''method'' (Method r),
                  slog_Int64 ''content_length'' (Request.ContentLength r),
                  slog_String ''proto'' (Proto r)];
               requestGroup = (case URL r of
                                 None \<Rightarrow> requestGroup
                               | Some u \<Rightarrow> requestGroup @ [slog_String ''url'' u])
           in case capture_request_body st p requestGroup w of
                Inl failed \<Rightarrow> Inl failed
              | Inr (requestGroup, w1) \<Rightarrow>
                  Inr (capture_request_headers st p requestGroup w1, w1)))"

text \<open>Lines 167 to 179, for the response at \<open>q\<close>.\<close>

definition capture_response_body ::
  "SlogTripper \<Rightarrow> addr \<Rightarrow> Attr list \<Rightarrow> World \<Rightarrow> (error \<times> World) + (Attr list \<times> World)" where
  "capture_response_body st q responseGroup w =
     (case (captureResponseBody st, Response.Body (responses w q)) of
        (True, Some body) \<Rightarrow>
          (case ReadFrom w body of
             (b, Some err, w1) \<Rightarrow> Inl (err, w1)
           | (b, None, w1) \<Rightarrow>
               (let w2 = Close w1 body;
                    responseGroup = responseGroup @ [slog_Any ''body_content'' (AnyString b)];
                    (fresh, w3) = NopCloser w2 b
                in Inr (responseGroup, set_Response_Body w3 q fresh)))
      | _ \<Rightarrow> Inr (responseGroup, w))"

text \<open>
  The loop of lines 184 to 187 over the names of the response's header. Its body calls
  \<^verbatim>\<open>req.Header.Get(name)\<close>, on the request.
\<close>

fun response_header_loop :: "addr option \<Rightarrow> World \<Rightarrow> string list \<Rightarrow> Attr list \<Rightarrow> panic + Attr list" where
  "response_header_loop req w [] headers = Inr headers"
| "response_header_loop req w (name # names) headers =
     (case req of
        None \<Rightarrow> Inl NilRequest
      | Some p \<Rightarrow>
          response_header_loop req w names
            (headers @ [slog_String name (Header_Get (Request.Header (requests w p)) name)]))"

text \<open>Lines 181 to 192.\<close>

definition capture_response_headers ::
  "SlogTripper \<Rightarrow> addr option \<Rightarrow> addr \<Rightarrow> Attr list \<Rightarrow> World \<Rightarrow> panic + Attr list" where
  "capture_response_headers st req q responseGroup w =
     (case (captureResponseHeaders st, Response.Header (responses w q)) of
        (True, Some h) \<Rightarrow>
          (case response_header_loop req w (map fst h) [] of
             Inl x \<Rightarrow> Inl x
           | Inr headers \<Rightarrow>
               Inr (if headers \<noteq> [] then responseGroup @ [slog_Group ''headers'' headers]
                    else responseGroup))
      | _ \<Rightarrow> Inr responseGroup)"

text \<open>Lines 153 to 193: the response group, or the early return of line 171.\<close>

definition build_responseGroup ::
  "SlogTripper \<Rightarrow> int \<Rightarrow> addr option \<Rightarrow> addr option \<Rightarrow> error option \<Rightarrow> World \<Rightarrow>
     Outcome + (Attr list \<times> World)" where
  "build_responseGroup st start req res err w =
     (let responseGroup = (case err of
                             None \<Rightarrow> []
                           | Some e \<Rightarrow> [slog_Any ''error'' (AnyError e)]) in
      case res of
        None \<Rightarrow> Inr (responseGroup, w)
      | Some q \<Rightarrow>
          (let s = responses w q;
               responseGroup = responseGroup @
                 [slog_String ''status'' (StatusText (StatusCode s)),
                  slog_Int ''status_code'' (StatusCode s),
                  slog_Int64 ''content_length'' (Response.ContentLength s),
                  slog_Duration ''time_taken'' (now w - start),
                  slog_String ''content_type'' (Header_Get (Response.Header s) ''Content-Type'')]
           in case capture_response_body st q responseGroup w of
                Inl (e, w1) \<Rightarrow> Inl (Returned None (Some e) w1)
              | Inr (responseGroup, w1) \<Rightarrow>
                  (case capture_response_headers st req q responseGroup w1 of
                     Inl x \<Rightarrow> Inl (Panic x)
                   | Inr responseGroup \<Rightarrow> Inr (responseGroup, w1))))"

text \<open>
  Lines 153 to 197: what happens once the delegate has returned \<open>res\<close> and \<open>err\<close>.
  The arguments of \<^verbatim>\<open>st.log\<close> are evaluated before the call, \<^verbatim>\<open>req.Context()\<close> first.
\<close>

definition RoundTrip_response ::
  "SlogTripper \<Rightarrow> int \<Rightarrow> Attr list \<Rightarrow> addr option \<Rightarrow> addr option \<Rightarrow> error option \<Rightarrow> World \<Rightarrow> Outcome" where
  "RoundTrip_response st start requestGroup req res err w =
     (case build_responseGroup st start req res err w of
        Inl early \<Rightarrow> early
      | Inr (responseGroup, w1) \<Rightarrow>
          (case req of
             None \<Rightarrow> Panic NilRequest
           | Some p \<Rightarrow>
               (case log st (Request_Context (requests w1 p)) ''HTTP Request''
                       [slog_Group ''request'' requestGroup,
                        slog_Group ''response'' responseGroup] w1 of
                  Inl x \<Rightarrow> Panic x
                | Inr w2 \<Rightarrow> Returned res err w2)))"

text \<open>
  \<^verbatim>\<open>func (st *SlogTripper) RoundTrip\<close>. Calling \<^verbatim>\<open>RoundTrip\<close> on a nil
  \<^verbatim>\<open>http.RoundTripper\<close> panics; a panic of the delegate is not recovered.
\<close>

definition RoundTrip :: "SlogTripper \<Rightarrow> RoundTripper" where
  "RoundTrip st req w =
     (let start = now w in
      case RoundTrip_request st start req w of
        Inl (e, w1) \<Rightarrow> Returned None (Some e) w1
      | Inr (requestGroup, w1) \<Rightarrow>
          (case proxyTransport st of
             None \<Rightarrow> Panic NilRoundTripper
           | Some t \<Rightarrow>
               (case t req w1 of
                  Panic x \<Rightarrow> Panic x
                | Returned res err w2 \<Rightarrow>
                    RoundTrip_response st start requestGroup req res err w2)))"

subsection \<open>Init\<close>

text \<open>
  \<^verbatim>\<open>m.Do\<close> runs its function when no call of \<^verbatim>\<open>Do\<close> has run it before. The function
  assigns \<^verbatim>\<open>http.DefaultTransport\<close> twice; the second value is a struct literal that
  sets \<^verbatim>\<open>proxyTransport\<close> only.
\<close>

definition Init :: "Globals \<Rightarrow> Globals" where
  "Init g =
     (if m_done g then g
      else
        (let g1 = g\<lparr>DefaultTransport := Some (RoundTrip (NewSlogTripper g []))\<rparr>;
             g2 = g1\<lparr>DefaultTransport := Some (RoundTrip
                    \<lparr>logger = None,
                     logAtLevel = 0,
                     proxyTransport = DefaultTransport g1,
                     captureRequestBody = False,
                     captureResponseBody = False,
                     captureRequestHeaders = False,
                     captureResponseHeaders = False\<rparr>)\<rparr>
         in g2\<lparr>m_done := True\<rparr>))"

subsection \<open>Fixtures of the test file\<close>

text \<open>
  \<^verbatim>\<open>ErrorReadCloser\<close>: every \<^verbatim>\<open>Read\<close> returns \<^verbatim>\<open>errors.New("error")\<close>.
\<close>

definition ErrorReadCloser :: Reader where
  "ErrorReadCloser = \<lparr>data = [], failure = Some (Error ''error''), closed = False\<rparr>"

text \<open>
  \<^verbatim>\<open>MockRoundTripper\<close> with a \<^verbatim>\<open>MockRoundTrip\<close> that returns a fixed response and error,
  as in \<^verbatim>\<open>TestExampleScenarios\<close>.
\<close>

definition MockRoundTripper :: "addr option \<Rightarrow> error option \<Rightarrow> RoundTripper" where
  "MockRoundTripper res err req w = Returned res err w"


text \<open>A logger whose handler is enabled from \<^verbatim>\<open>LevelInfo\<close> upwards.\<close>

definition info_Logger :: Logger where
  "info_Logger = \<lparr>handler_enabled = (\<lambda>c lvl. LevelInfo \<le> lvl), handler_sink = 0\<rparr>"

definition test_Globals :: Globals where
  "test_Globals =
     \<lparr>DefaultTransport = Some (MockRoundTripper (Some 0) None),
      slog_Default = info_Logger,
      m_done = False\<rparr>"

text \<open>
  A heap with one request (a POST with a header and the body \<^verbatim>\<open>hello\<close>), a second
  request whose body is an \<^verbatim>\<open>ErrorReadCloser\<close>, one response (status 200, a header, the
  body \<^verbatim>\<open>gday\<close>) and a second response whose body is an \<^verbatim>\<open>ErrorReadCloser\<close>.
\<close>

definition test_Request :: Request where
  "test_Request =
     \<lparr>Method = ''POST'', URL = Some ''http://localhost/'', Proto = ''HTTP/1.1'',
      Header = Some [(''Example-Header'', [''value''])], Body = Some 0,
      ContentLength = 5, ctx = None\<rparr>"

definition faulty_Request :: Request where
  "faulty_Request =
     \<lparr>Method = [], URL = None, Proto = [], Header = None, Body = Some 2,
      ContentLength = 0, ctx = None\<rparr>"

definition test_Response :: Response where
  "test_Response =
     \<lparr>StatusCode = 200, Header = Some [(''Content-Type'', [''application/json''])],
      Body = Some 1, ContentLength = 4\<rparr>"

definition faulty_Response :: Response where
  "faulty_Response = \<lparr>StatusCode = 0, Header = None, Body = Some 2, ContentLength = 0\<rparr>"

definition test_World :: World where
  "test_World =
     \<lparr>requests = (\<lambda>a. if a = 1 then faulty_Request else test_Request),
      responses = (\<lambda>a. if a = 1 then faulty_Response else test_Response),
      readers = (\<lambda>a. if a = 0 then \<lparr>data = ''hello'', failure = None, closed = False\<rparr>
                      else if a = 1 then \<lparr>data = ''gday'', failure = None, closed = False\<rparr>
                      else ErrorReadCloser),
      next_addr = 3,
      now = 0,
      logs = []\<rparr>"

text \<open>What \<^verbatim>\<open>io.ReadAll(req.Body)\<close> and \<^verbatim>\<open>io.ReadAll(res.Body)\<close> return in a world.\<close>

definition read_Request_Body :: "World \<Rightarrow> addr \<Rightarrow> string \<times> error option" where
  "read_Request_Body w p =
     (case Request.Body (requests w p) of
        None \<Rightarrow> ([], None)
      | Some a \<Rightarrow> (data (readers w a), failure (readers w a)))"

definition read_Response_Body :: "World \<Rightarrow> addr \<Rightarrow> string \<times> error option" where
  "read_Response_Body w q =
     (case Response.Body (responses w q) of
        None \<Rightarrow> ([], None)
      | Some a \<Rightarrow> (data (readers w a), failure (readers w a)))"

text \<open>
  A transport that answers with the body it was sent: it stores the \<^verbatim>\<open>Body\<close> of the
  request in the response at address 0 and returns that response. It reads nothing.
\<close>

definition EchoRoundTripper :: RoundTripper where
  "EchoRoundTripper req w =
     (case req of
        None \<Rightarrow> Panic NilRequest
      | Some p \<Rightarrow>
          Returned (Some 0) None
            (w\<lparr>responses := (responses w)
                 (0 := (responses w 0)\<lparr>Response.Body := Request.Body (requests w p)\<rparr>)\<rparr>))"

text \<open>A transport that panics when it is called.\<close>

definition PanickingRoundTripper :: RoundTripper where
  "PanickingRoundTripper req w = Panic (OtherPanic ''called'')"

text \<open>
  What a caller observes of a call: whether it returned, the records in the log and what
  reading the bodies gives afterwards.
\<close>

definition returns :: "Outcome \<Rightarrow> bool" where
  "returns out = (case out of Panic x \<Rightarrow> False | Returned res err w \<Rightarrow> True)"

definition panic_of :: "Outcome \<Rightarrow> panic option" where
  "panic_of out = (case out of Panic x \<Rightarrow> Some x | Returned res err w \<Rightarrow> None)"

definition logs_after :: "Outcome \<Rightarrow> LogRecord list option" where
  "logs_after out = (case out of Panic x \<Rightarrow> None | Returned res err w \<Rightarrow> Some (logs w))"

definition read_Request_Body_after :: "Outcome \<Rightarrow> addr \<Rightarrow> (string \<times> error option) option" where
  "read_Request_Body_after out p =
     (case out of Panic x \<Rightarrow> None | Returned res err w \<Rightarrow> Some (read_Request_Body w p))"

definition read_Response_Body_after :: "Outcome \<Rightarrow> addr \<Rightarrow> (string \<times> error option) option" where
  "read_Response_Body_after out q =
     (case out of Panic x \<Rightarrow> None | Returned res err w \<Rightarrow> Some (read_Response_Body w q))"

definition result_of :: "Outcome \<Rightarrow> (addr option \<times> error option) option" where
  "result_of out = (case out of Panic x \<Rightarrow> None | Returned res err w \<Rightarrow> Some (res, err))"

text \<open>
  A call of \<^verbatim>\<open>RoundTrip\<close> on the value of \<^verbatim>\<open>http.DefaultTransport\<close>, as \<^verbatim>\<open>http.Client\<close>
  makes it.
\<close>

definition DefaultTransport_RoundTrip :: "Globals \<Rightarrow> RoundTripper" where
  "DefaultTransport_RoundTrip g req w =
     (case DefaultTransport g of None \<Rightarrow> Panic NilRoundTripper | Some t \<Rightarrow> t req w)"

section \<open>Properties\<close>

subsection \<open>The phases of a call\<close>

lemma RoundTrip_request_no_capture:
  assumes "\<not> captureRequestBody st" "\<not> captureRequestHeaders st"
  shows "\<exists>grp. RoundTrip_request st start req w = Inr (grp, w)"
  using assms
  by (simp add: RoundTrip_request_def capture_request_body_def capture_request_headers_def Let_def
      split: option.splits)

lemma build_responseGroup_no_capture:
  assumes "\<not> captureResponseBody st" "\<not> captureResponseHeaders st"
  shows "\<exists>grp. build_responseGroup st start req res err w = Inr (grp, w)"
  using assms
  by (simp add: build_responseGroup_def capture_response_body_def capture_response_headers_def Let_def
      split: option.splits)

lemma RoundTrip_no_capture:
  assumes "\<not> captureRequestBody st" "\<not> captureRequestHeaders st"
    "\<not> captureResponseBody st" "\<not> captureResponseHeaders st"
    "proxyTransport st = Some t" "t (Some p) w = Returned res err w2"
  shows "\<exists>grps. RoundTrip st (Some p) w =
     (case log st (Request_Context (requests w2 p)) ''HTTP Request'' grps w2 of
        Inl x \<Rightarrow> Panic x | Inr w3 \<Rightarrow> Returned res err w3)"
proof -
  obtain g1 where g1: "RoundTrip_request st (now w) (Some p) w = Inr (g1, w)"
    using RoundTrip_request_no_capture[OF assms(1,2)] by blast
  obtain g2 where g2: "build_responseGroup st (now w) (Some p) res err w2 = Inr (g2, w2)"
    using build_responseGroup_no_capture[OF assms(3,4)] by blast
  have "RoundTrip st (Some p) w =
     (case log st (Request_Context (requests w2 p)) ''HTTP Request''
        [slog_Group ''request'' g1, slog_Group ''response'' g2] w2 of
        Inl x \<Rightarrow> Panic x | Inr w3 \<Rightarrow> Returned res err w3)"
    using assms(5,6) g1 g2 by (simp add: RoundTrip_def RoundTrip_response_def)
  then show ?thesis by blast
qed

lemma log_heap:
  assumes "log st c msg args w = Inr w'"
  shows "requests w' = requests w \<and> responses w' = responses w \<and> readers w' = readers w \<and>
         next_addr w' = next_addr w"
  using assms by (auto simp: log_def Logger_log_def split: if_splits option.splits)

lemma log_with_logger:
  assumes "logger st = Some l"
  shows "\<exists>w'. log st c msg args w = Inr w'"
  using assms by (simp add: log_def)









lemma response_header_loop_None:
  assumes "response_header_loop None w names acc = Inl x"
  shows "x = NilRequest"
  using assms by (cases names) simp_all

subsection \<open>Response headers\<close>

text \<open>
  C1. With response-header capture enabled, the header group of the response should hold,
  for each name of the response's header, the value the response's own header gives for
  it. The loop of lines 184 to 187 calls \<^verbatim>\<open>req.Header.Get(name)\<close> instead: for the
  response of \<open>test_World\<close>, whose header has \<^verbatim>\<open>Content-Type: application/json\<close>, and
  a request without that name, the record holds the empty string under
  \<^verbatim>\<open>Content-Type\<close>. The group is added only when the response's header has a name.
\<close>

theorem response_headers_read_from_request:
  "Header_Get (Response.Header (responses test_World 0)) ''Content-Type'' = ''application/json'' \<and>
   Header_Get (Request.Header (requests test_World 0)) ''Content-Type'' = [] \<and>
   logs_after (RoundTrip (NewSlogTripper test_Globals [CaptureResponseHeaders])
      (Some 0) test_World) =
   Some [\<lparr>rec_sink = 0, rec_ctx = Background, rec_level = LevelInfo, rec_msg = ''HTTP Request'',
      rec_args =
        [slog_Group ''request''
          [slog_Time ''started_at'' 0, slog_String ''method'' ''POST'',
           slog_Int64 ''content_length'' 5, slog_String ''proto'' ''HTTP/1.1'',
           slog_String ''url'' ''http://localhost/''],
         slog_Group ''response''
          [slog_String ''status'' ''OK'', slog_Int ''status_code'' 200,
           slog_Int64 ''content_length'' 4, slog_Duration ''time_taken'' 0,
           slog_String ''content_type'' ''application/json'',
           slog_Group ''headers'' [slog_String ''Content-Type'' []]]]\<rparr>]"
  by code_simp

subsection \<open>Failing body reads\<close>

text \<open>
  C2. When request-body capture is enabled and reading the body of the request fails with
  an error, \<^verbatim>\<open>RoundTrip\<close> returns a nil response and that error. The outcome is the same
  for every value of \<^verbatim>\<open>proxyTransport\<close>, a nil one and one that panics when called
  included, so the delegate is not called; and the log of the world returned is the log
  of the world the call started in.
\<close>

theorem request_body_read_failure:
  assumes "captureRequestBody st"
    and "Request.Body (requests w p) = Some body"
    and "failure (readers w body) = Some e"
  shows "RoundTrip (st\<lparr>proxyTransport := t\<rparr>) (Some p) w =
           Returned None (Some e)
             (w\<lparr>readers := (readers w)(body := (readers w body)\<lparr>data := []\<rparr>)\<rparr>) \<and>
         logs (w\<lparr>readers := (readers w)(body := (readers w body)\<lparr>data := []\<rparr>)\<rparr>) = logs w"
  using assms
  by (simp add: RoundTrip_def RoundTrip_request_def capture_request_body_def ReadFrom_def Let_def)

theorem request_body_read_failure_witness:
  "captureRequestBody (NewSlogTripper test_Globals [CaptureRequestBody]) \<and>
   Request.Body (requests test_World 1) = Some 2 \<and>
   failure (readers test_World 2) = Some (Error ''error'') \<and>
   result_of (RoundTrip ((NewSlogTripper test_Globals [CaptureRequestBody])
       \<lparr>proxyTransport := Some PanickingRoundTripper\<rparr>) (Some 1) test_World) =
     Some (None, Some (Error ''error'')) \<and>
   logs_after (RoundTrip ((NewSlogTripper test_Globals [CaptureRequestBody])
       \<lparr>proxyTransport := Some PanickingRoundTripper\<rparr>) (Some 1) test_World) = Some []"
proof -
  have h: "captureRequestBody (NewSlogTripper test_Globals [CaptureRequestBody])"
    "Request.Body (requests test_World 1) = Some 2"
    "failure (readers test_World 2) = Some (Error ''error'')"
    by (simp_all add: NewSlogTripper_def CaptureRequestBody_def test_World_def faulty_Request_def
        ErrorReadCloser_def)
  have l: "logs test_World = []" by (simp add: test_World_def)
  from request_body_read_failure[OF h, of "Some PanickingRoundTripper"] h l
  show ?thesis by (simp add: result_of_def logs_after_def)
qed

text \<open>
  C5. When response-body capture is enabled, the delegate returns a response with a body,
  and reading that body fails with an error, \<^verbatim>\<open>RoundTrip\<close> returns a nil response and
  that error, whatever error the delegate returned, and writes no record: the log is the
  one the delegate left.
\<close>

theorem response_body_read_failure:
  assumes "captureResponseBody st"
    and "proxyTransport st = Some t"
    and "RoundTrip_request st (now w) req w = Inr (requestGroup, w1)"
    and "t req w1 = Returned (Some q) err w2"
    and "Response.Body (responses w2 q) = Some body"
    and "failure (readers w2 body) = Some e"
  shows "RoundTrip st req w =
           Returned None (Some e)
             (w2\<lparr>readers := (readers w2)(body := (readers w2 body)\<lparr>data := []\<rparr>)\<rparr>) \<and>
         logs (w2\<lparr>readers := (readers w2)(body := (readers w2 body)\<lparr>data := []\<rparr>)\<rparr>) = logs w2"
  using assms
  by (simp add: RoundTrip_def RoundTrip_response_def build_responseGroup_def
      capture_response_body_def ReadFrom_def Let_def)

theorem response_body_read_failure_witness:
  "captureResponseBody (NewSlogTripper test_Globals
      [CaptureResponseBody, WithRoundTripper (Some (MockRoundTripper (Some 1) None))]) \<and>
   result_of (MockRoundTripper (Some 1) None (Some 0) test_World) = Some (Some 1, None) \<and>
   Response.Body (responses test_World 1) = Some 2 \<and>
   failure (readers test_World 2) = Some (Error ''error'') \<and>
   result_of (RoundTrip (NewSlogTripper test_Globals
      [CaptureResponseBody, WithRoundTripper (Some (MockRoundTripper (Some 1) None))])
      (Some 0) test_World) = Some (None, Some (Error ''error'')) \<and>
   logs_after (RoundTrip (NewSlogTripper test_Globals
      [CaptureResponseBody, WithRoundTripper (Some (MockRoundTripper (Some 1) None))])
      (Some 0) test_World) = Some []"
proof -
  let ?t = "MockRoundTripper (Some 1) None"
  let ?st = "NewSlogTripper test_Globals [CaptureResponseBody, WithRoundTripper (Some ?t)]"
  have st: "captureResponseBody ?st" "proxyTransport ?st = Some ?t"
    "\<not> captureRequestBody ?st" "\<not> captureRequestHeaders ?st"
    by (simp_all add: NewSlogTripper_def CaptureResponseBody_def WithRoundTripper_def)
  obtain grp where rq: "RoundTrip_request ?st (now test_World) (Some 0) test_World = Inr (grp, test_World)"
    using RoundTrip_request_no_capture[OF st(3,4)] by blast
  have t: "?t (Some 0) test_World = Returned (Some 1) None test_World"
    by (simp add: MockRoundTripper_def)
  have b: "Response.Body (responses test_World 1) = Some 2"
    "failure (readers test_World 2) = Some (Error ''error'')"
    "logs test_World = []"
    by (simp_all add: test_World_def faulty_Response_def ErrorReadCloser_def)
  from response_body_read_failure[OF st(1,2) rq t b(1,2)] st(1) t b
  show ?thesis by (simp add: result_of_def logs_after_def)
qed

subsection \<open>Captured bodies\<close>





text \<open>
  The second condition on the delegate is needed as well: a delegate that reads nothing
  and returns the body of the request as the body of its response has that reader drained
  by the capture of the response's body. The response then holds the bytes, the request
  none.
\<close>

lemma request_body_drained_through_aliased_response:
  "read_Request_Body test_World 0 = (''hello'', None) \<and>
   read_Request_Body_after
     (RoundTrip (NewSlogTripper test_Globals
         [WithRoundTripper (Some EchoRoundTripper), CaptureRequestBody, CaptureResponseBody])
       (Some 0) test_World) 0 = Some ([], None) \<and>
   read_Response_Body_after
     (RoundTrip (NewSlogTripper test_Globals
         [WithRoundTripper (Some EchoRoundTripper), CaptureRequestBody, CaptureResponseBody])
       (Some 0) test_World) 0 = Some (''hello'', None)"
  by code_simp

subsection \<open>The result of the delegate\<close>

text \<open>
  With the four capture flags off, a request that is not nil and a logger that is not
  nil, \<^verbatim>\<open>RoundTrip\<close> returns the response pointer and the error the delegate returned
  for that request, and leaves the request, response and reader objects as the delegate
  left them.
\<close>

lemma RoundTrip_no_capture_returned:
  assumes "\<not> captureRequestBody st" and "\<not> captureResponseBody st"
    and "\<not> captureRequestHeaders st" and "\<not> captureResponseHeaders st"
    and "proxyTransport st = Some t"
    and "t (Some p) w = Returned res err w2"
    and "logger st = Some l"
  shows "\<exists>w3. RoundTrip st (Some p) w = Returned res err w3 \<and>
     requests w3 = requests w2 \<and> responses w3 = responses w2 \<and> readers w3 = readers w2"
proof -
  obtain grps where r: "RoundTrip st (Some p) w =
     (case log st (Request_Context (requests w2 p)) ''HTTP Request'' grps w2 of
        Inl x \<Rightarrow> Panic x | Inr w3 \<Rightarrow> Returned res err w3)"
    using RoundTrip_no_capture[OF assms(1,3,2,4,5,6)] by blast
  obtain w3 where l: "log st (Request_Context (requests w2 p)) ''HTTP Request'' grps w2 = Inr w3"
    using log_with_logger[OF assms(7)] by blast
  show ?thesis using r l log_heap[OF l] by simp
qed

text \<open>
  C4. With the four capture flags off, \<^verbatim>\<open>RoundTrip\<close> should return, for every request,
  the pair its delegate returns for it. It does not where line 195 panics. For the nil
  request the delegate of \<^verbatim>\<open>NewSlogTripper()\<close> returns a response and a nil error, and
  \<^verbatim>\<open>RoundTrip\<close> panics on \<^verbatim>\<open>req.Context()\<close>. For the request of \<open>test_World\<close> the
  delegate of the decorator \<^verbatim>\<open>Init\<close> installs returns a response and a nil error, and
  \<^verbatim>\<open>RoundTrip\<close> panics on the nil logger.
\<close>

theorem RoundTrip_panics_though_delegate_returns:
  "\<not> captureRequestBody (NewSlogTripper test_Globals []) \<and>
   \<not> captureResponseBody (NewSlogTripper test_Globals []) \<and>
   \<not> captureRequestHeaders (NewSlogTripper test_Globals []) \<and>
   \<not> captureResponseHeaders (NewSlogTripper test_Globals []) \<and>
   proxyTransport (NewSlogTripper test_Globals []) = Some (MockRoundTripper (Some 0) None) \<and>
   result_of (MockRoundTripper (Some 0) None None test_World) = Some (Some 0, None) \<and>
   panic_of (RoundTrip (NewSlogTripper test_Globals []) None test_World) = Some NilRequest \<and>
   result_of (RoundTrip (NewSlogTripper test_Globals []) (Some 0) test_World) = Some (Some 0, None) \<and>
   panic_of (DefaultTransport_RoundTrip (Init test_Globals) (Some 0) test_World) = Some NilLogger"
proof -
  have "proxyTransport (NewSlogTripper test_Globals []) = Some (MockRoundTripper (Some 0) None)"
    by (simp add: NewSlogTripper_def test_Globals_def)
  moreover have "\<not> captureRequestBody (NewSlogTripper test_Globals []) \<and>
   \<not> captureResponseBody (NewSlogTripper test_Globals []) \<and>
   \<not> captureRequestHeaders (NewSlogTripper test_Globals []) \<and>
   \<not> captureResponseHeaders (NewSlogTripper test_Globals []) \<and>
   result_of (MockRoundTripper (Some 0) None None test_World) = Some (Some 0, None) \<and>
   panic_of (RoundTrip (NewSlogTripper test_Globals []) None test_World) = Some NilRequest \<and>
   result_of (RoundTrip (NewSlogTripper test_Globals []) (Some 0) test_World) = Some (Some 0, None) \<and>
   panic_of (DefaultTransport_RoundTrip (Init test_Globals) (Some 0) test_World) = Some NilLogger"
    by code_simp
  ultimately show ?thesis by blast
qed

subsection \<open>A nil request\<close>

text \<open>
  C6. A nil request should be logged with the timestamp alone in its group. The request
  group is built that way (line 112 guards it), but line 195 calls \<^verbatim>\<open>req.Context()\<close> on
  the nil request, and the loop of line 186 calls \<^verbatim>\<open>req.Header.Get\<close> on it: when the
  delegate returns and no body of a response is captured, the call panics with a nil
  dereference, and nothing is logged.
\<close>

theorem nil_request_panics:
  assumes "proxyTransport st = Some t"
    and "t None w = Returned res err w2"
    and "\<not> captureResponseBody st"
  shows "RoundTrip st None w = Panic NilRequest"
proof -
  have rq: "RoundTrip_request st (now w) None w = Inr ([slog_Time ''started_at'' (now w)], w)"
    by (simp add: RoundTrip_request_def)
  have "RoundTrip_response st (now w) grp None res err w2 = Panic NilRequest" for grp
    using assms(3)
    by (cases res)
       (auto simp: RoundTrip_response_def build_responseGroup_def Let_def capture_response_body_def
          capture_response_headers_def
          dest: response_header_loop_None
          split: option.splits sum.splits prod.splits bool.splits list.splits)
  then show ?thesis using assms(1,2) rq by (simp add: RoundTrip_def)
qed

theorem nil_request_panics_witness:
  "proxyTransport (NewSlogTripper test_Globals []) = Some (MockRoundTripper (Some 0) None) \<and>
   MockRoundTripper (Some 0) None None test_World = Returned (Some 0) None test_World \<and>
   \<not> captureResponseBody (NewSlogTripper test_Globals []) \<and>
   RoundTrip (NewSlogTripper test_Globals []) None test_World = Panic NilRequest"
proof -
  have h: "proxyTransport (NewSlogTripper test_Globals []) = Some (MockRoundTripper (Some 0) None)"
    "MockRoundTripper (Some 0) None None test_World = Returned (Some 0) None test_World"
    "\<not> captureResponseBody (NewSlogTripper test_Globals [])"
    by (simp_all add: NewSlogTripper_def test_Globals_def MockRoundTripper_def)
  from nil_request_panics[OF h] h show ?thesis by simp
qed

subsection \<open>Init\<close>

text \<open>
  C7. \<^verbatim>\<open>Init\<close> runs its function once: after a call the \<^verbatim>\<open>sync.Once\<close> is done, a call
  that finds it done changes nothing, and a second call gives the state of the first.
  After the first call \<^verbatim>\<open>http.DefaultTransport\<close> is a \<^verbatim>\<open>SlogTripper\<close> whose delegate is
  the \<^verbatim>\<open>SlogTripper\<close> that \<^verbatim>\<open>NewSlogTripper()\<close> built, whose delegate is the default
  transport found by that call.
\<close>

theorem Init_runs_once:
  "m_done (Init g) \<and> (m_done g \<longrightarrow> Init g = g) \<and> Init (Init g) = Init g \<and>
   (\<not> m_done g \<longrightarrow>
      DefaultTransport (Init g) = Some (RoundTrip
        \<lparr>logger = None, logAtLevel = 0,
         proxyTransport = Some (RoundTrip (NewSlogTripper g [])),
         captureRequestBody = False, captureResponseBody = False,
         captureRequestHeaders = False, captureResponseHeaders = False\<rparr>) \<and>
      proxyTransport (NewSlogTripper g []) = DefaultTransport g)"
  by (simp add: Init_def Let_def NewSlogTripper_def)

theorem Init_runs_once_witness:
  "\<not> m_done test_Globals \<and> m_done (Init test_Globals) \<and>
   Init (Init test_Globals) = Init test_Globals \<and>
   DefaultTransport (Init (Init test_Globals)) = Some (RoundTrip
        \<lparr>logger = None, logAtLevel = 0,
         proxyTransport = Some (RoundTrip (NewSlogTripper test_Globals [])),
         captureRequestBody = False, captureResponseBody = False,
         captureRequestHeaders = False, captureResponseHeaders = False\<rparr>) \<and>
   proxyTransport (NewSlogTripper test_Globals []) = Some (MockRoundTripper (Some 0) None)"
proof -
  have h: "\<not> m_done test_Globals" "DefaultTransport test_Globals = Some (MockRoundTripper (Some 0) None)"
    by (simp_all add: test_Globals_def)
  from Init_runs_once[of test_Globals] h show ?thesis by simp
qed

text \<open>
  C8. The \<^verbatim>\<open>SlogTripper\<close> that the first call of \<^verbatim>\<open>Init\<close> installs has a nil logger and
  the zero level, which is \<^verbatim>\<open>LevelInfo\<close>. Its log step calls \<^verbatim>\<open>InfoContext\<close> on the nil
  logger, whatever the arguments; and every call of its \<^verbatim>\<open>RoundTrip\<close> on a request
  for which its delegate returns reaches that step.
\<close>

theorem Init_installs_nil_logger:
  assumes "\<not> m_done g"
    and d: "d = \<lparr>logger = None, logAtLevel = 0,
         proxyTransport = Some (RoundTrip (NewSlogTripper g [])),
         captureRequestBody = False, captureResponseBody = False,
         captureRequestHeaders = False, captureResponseHeaders = False\<rparr>"
  shows "DefaultTransport (Init g) = Some (RoundTrip d) \<and>
     logger d = None \<and> logAtLevel d = LevelInfo \<and>
     log d c msg args w0 = Inl NilLogger \<and>
     (RoundTrip (NewSlogTripper g []) (Some p) w = Returned res err w2 \<longrightarrow>
        RoundTrip d (Some p) w = Panic NilLogger)"
proof -
  have l: "\<And>c msg args w. log d c msg args w = Inl NilLogger"
    by (simp add: d log_def LevelInfo_def LevelDebug_def)
  have flags: "\<not> captureRequestBody d" "\<not> captureRequestHeaders d"
    "\<not> captureResponseBody d" "\<not> captureResponseHeaders d"
    and px: "proxyTransport d = Some (RoundTrip (NewSlogTripper g []))"
    by (simp_all add: d)
  have "RoundTrip d (Some p) w = Panic NilLogger"
    if "RoundTrip (NewSlogTripper g []) (Some p) w = Returned res err w2"
    using RoundTrip_no_capture[OF flags px that] by (auto simp: l)
  then show ?thesis using assms(1) l
    by (simp add: d Init_def Let_def LevelInfo_def)
qed

theorem Init_installs_nil_logger_witness:
  "\<not> m_done test_Globals \<and>
   returns (RoundTrip (NewSlogTripper test_Globals []) (Some 0) test_World) \<and>
   DefaultTransport (Init test_Globals) = Some (RoundTrip
        \<lparr>logger = None, logAtLevel = 0,
         proxyTransport = Some (RoundTrip (NewSlogTripper test_Globals [])),
         captureRequestBody = False, captureResponseBody = False,
         captureRequestHeaders = False, captureResponseHeaders = False\<rparr>) \<and>
   RoundTrip
        \<lparr>logger = None, logAtLevel = 0,
         proxyTransport = Some (RoundTrip (NewSlogTripper test_Globals [])),
         captureRequestBody = False, captureResponseBody = False,
         captureRequestHeaders = False, captureResponseHeaders = False\<rparr>
      (Some 0) test_World = Panic NilLogger"
proof -
  have m: "\<not> m_done test_Globals" by (simp add: test_Globals_def)
  have r: "returns (RoundTrip (NewSlogTripper test_Globals []) (Some 0) test_World)"
    by code_simp
  then obtain res err w2 where
    i: "RoundTrip (NewSlogTripper test_Globals []) (Some 0) test_World = Returned res err w2"
    by (cases "RoundTrip (NewSlogTripper test_Globals []) (Some 0) test_World")
       (simp_all add: returns_def)
  from Init_installs_nil_logger[OF m refl, of _ _ _ _ 0 test_World res err w2] i m r
  show ?thesis by simp
qed

subsection \<open>Levels and construction\<close>

text \<open>
  C9. The log step writes a record only when the level of the decorator is
  \<^verbatim>\<open>LevelDebug\<close> or \<^verbatim>\<open>LevelInfo\<close>: at any other level it returns the world unchanged,
  and a log step that changed the log ran at one of the two.
\<close>

theorem log_emits_only_at_Debug_or_Info:
  "(logAtLevel st \<noteq> LevelDebug \<and> logAtLevel st \<noteq> LevelInfo \<longrightarrow> log st c msg args w = Inr w) \<and>
   (log st c msg args w = Inr w' \<and> logs w' \<noteq> logs w \<longrightarrow>
      logAtLevel st = LevelDebug \<or> logAtLevel st = LevelInfo)"
  by (auto simp: log_def split: if_splits)

theorem log_emits_only_at_Debug_or_Info_witness:
  "logAtLevel (NewSlogTripper test_Globals [WithLoggingLevel LevelWarn]) \<noteq> LevelDebug \<and>
   logAtLevel (NewSlogTripper test_Globals [WithLoggingLevel LevelWarn]) \<noteq> LevelInfo \<and>
   log (NewSlogTripper test_Globals [WithLoggingLevel LevelWarn]) Background ''HTTP Request'' []
     test_World = Inr test_World \<and>
   log (NewSlogTripper test_Globals []) Background ''HTTP Request'' [] test_World =
     Inr (Logger_log info_Logger Background LevelInfo ''HTTP Request'' [] test_World) \<and>
   logs (Logger_log info_Logger Background LevelInfo ''HTTP Request'' [] test_World) \<noteq>
     logs test_World \<and>
   (logAtLevel (NewSlogTripper test_Globals []) = LevelDebug \<or>
    logAtLevel (NewSlogTripper test_Globals []) = LevelInfo)"
proof -
  let ?warn = "NewSlogTripper test_Globals [WithLoggingLevel LevelWarn]"
  let ?info = "NewSlogTripper test_Globals []"
  let ?w = "Logger_log info_Logger Background LevelInfo ''HTTP Request'' [] test_World"
  have h: "logAtLevel ?warn \<noteq> LevelDebug \<and> logAtLevel ?warn \<noteq> LevelInfo"
    by (simp add: NewSlogTripper_def WithLoggingLevel_def LevelWarn_def LevelDebug_def LevelInfo_def)
  have i: "log ?info Background ''HTTP Request'' [] test_World = Inr ?w"
    by (simp add: log_def NewSlogTripper_def LevelDebug_def LevelInfo_def test_Globals_def)
  have j: "logs ?w \<noteq> logs test_World"
    by (simp add: Logger_log_def info_Logger_def)
  from log_emits_only_at_Debug_or_Info[of ?warn Background "''HTTP Request''" "[]" test_World] h
  have one: "log ?warn Background ''HTTP Request'' [] test_World = Inr test_World"
    by blast
  from log_emits_only_at_Debug_or_Info[of ?info Background "''HTTP Request''" "[]" test_World ?w] i j
  have two: "logAtLevel ?info = LevelDebug \<or> logAtLevel ?info = LevelInfo"
    by blast
  show ?thesis using h one i j two by blast
qed

text \<open>
  C10. Without options \<^verbatim>\<open>NewSlogTripper\<close> stores the logger \<^verbatim>\<open>slog.Default()\<close> returns
  when it runs, \<^verbatim>\<open>LevelInfo\<close>, \<^verbatim>\<open>http.DefaultTransport\<close> and four flags that are off.
  \<^verbatim>\<open>WithLogger(nil)\<close> stores the default logger and \<^verbatim>\<open>WithRoundTripper(nil)\<close> stores
  \<^verbatim>\<open>http.DefaultTransport\<close>, also after other options.
\<close>

theorem NewSlogTripper_defaults:
  "NewSlogTripper g [] =
     \<lparr>logger = Some (slog_Default g), logAtLevel = LevelInfo, proxyTransport = DefaultTransport g,
      captureRequestBody = False, captureResponseBody = False,
      captureRequestHeaders = False, captureResponseHeaders = False\<rparr> \<and>
   logger (WithLogger None g st) = Some (slog_Default g) \<and>
   proxyTransport (WithRoundTripper None g st) = DefaultTransport g \<and>
   logger (NewSlogTripper g (opts @ [WithLogger None])) = Some (slog_Default g) \<and>
   proxyTransport (NewSlogTripper g (opts @ [WithRoundTripper None])) = DefaultTransport g"
  by (simp add: NewSlogTripper_def WithLogger_def WithRoundTripper_def)

theorem NewSlogTripper_defaults_witness:
  "logger (NewSlogTripper test_Globals [WithLogger None, WithRoundTripper None]) = Some info_Logger \<and>
   proxyTransport (NewSlogTripper test_Globals [WithLogger None, WithRoundTripper None]) =
     Some (MockRoundTripper (Some 0) None) \<and>
   logAtLevel (NewSlogTripper test_Globals []) = 0"
proof -
  from NewSlogTripper_defaults[of test_Globals undefined "[WithLogger None]"]
  show ?thesis
    by (simp add: test_Globals_def LevelInfo_def NewSlogTripper_def WithLogger_def WithRoundTripper_def)
qed

end
